theory Spec2Isabelle
  imports Main
begin

section \<open>The timer store of \<open>src/app/page.tsx\<close>\<close>

text \<open>
  The page keeps one zustand store, \<open>useTimerStore\<close>. Its data fields are the record
  \<open>TimerState\<close> below. All numbers the page ever stores are whole seconds (the defaults
  are \<open>50 * 60\<close> and \<open>10 * 60\<close>, the inputs come from \<open>parseInt(..) || 0\<close>, and the
  tick subtracts 1), so they are modelled as \<open>int\<close>.

  \<open>intervalId\<close> is \<open>NodeJS.Timeout | null\<close>: \<open>None\<close> is \<open>null\<close>, \<open>Some h\<close> a handle
  that \<open>setInterval\<close> returned. A handle is an opaque token and is always truthy.

  The field \<open>notificationSound\<close> is left out: the only use of it is
  \<open>notificationSound?.play().catch(..)\<close> in the tick callback, which neither reads nor
  writes any other field of the store.
\<close>

record TimerState =
  workTime :: int
  breakTime :: int
  remainingTime :: int
  isRunning :: bool
  isWorkSession :: bool
  intervalId :: "nat option"

text \<open>
  The host's timer facility, which \<open>setInterval\<close> and \<open>clearInterval\<close> act on, is made
  explicit: \<open>activeIntervals\<close> is the set of handles that were scheduled and not yet
  cleared (the intervals that still fire), \<open>nextHandle\<close> the next handle to hand out.
\<close>

record Runtime = TimerState +
  activeIntervals :: "nat set"
  nextHandle :: nat

definition setInterval :: "Runtime \<Rightarrow> nat \<times> Runtime" where
  "setInterval s =
     (nextHandle s,
      s\<lparr>activeIntervals := insert (nextHandle s) (activeIntervals s),
        nextHandle := Suc (nextHandle s)\<rparr>)"

definition clearInterval :: "nat option \<Rightarrow> Runtime \<Rightarrow> Runtime" where
  "clearInterval h s =
     (case h of
        None \<Rightarrow> s
      | Some i \<Rightarrow> s\<lparr>activeIntervals := activeIntervals s - {i}\<rparr>)"

text \<open>The initial store (lines 30-36) on a host with no interval scheduled.\<close>

definition initialState :: Runtime where
  "initialState =
     \<lparr>workTime = 50 * 60, breakTime = 10 * 60, remainingTime = 50 * 60,
      isRunning = False, isWorkSession = True, intervalId = None,
      activeIntervals = {}, nextHandle = 1\<rparr>"

subsection \<open>The tick\<close>

text \<open>
  The callback given to \<open>setInterval\<close> in \<open>startTimer\<close> (lines 62-82). It reads the
  store as it is when the interval fires.
\<close>

definition tickCallback :: "Runtime \<Rightarrow> Runtime" where
  "tickCallback state =
     (if remainingTime state \<le> 0 then
        (let cleared = clearInterval (intervalId state) state;
             nextIsWorkSession = \<not> isWorkSession state;
             nextRemainingTime =
               (if nextIsWorkSession then workTime state else breakTime state)
         in cleared\<lparr>isRunning := False,
                    isWorkSession := nextIsWorkSession,
                    remainingTime := nextRemainingTime,
                    intervalId := None\<rparr>)
      else state\<lparr>remainingTime := remainingTime state - 1\<rparr>)"

text \<open>
  One second passing: the host runs the callback if an interval is still scheduled, and
  nothing happens otherwise. Every interval of the page carries the same callback.
\<close>

definition tick :: "Runtime \<Rightarrow> Runtime" where
  "tick s = (if activeIntervals s = {} then s else tickCallback s)"

subsection \<open>The store's operations\<close>

definition startTimer :: "Runtime \<Rightarrow> Runtime" where
  "startTimer s =
     (if isRunning s then s
      else
        (let s1 = (if remainingTime s = 0
                   then s\<lparr>remainingTime :=
                            (if isWorkSession s then workTime s else breakTime s)\<rparr>
                   else s);
             s2 = s1\<lparr>isRunning := True\<rparr>;
             (h, s3) = setInterval s2
         in s3\<lparr>intervalId := Some h\<rparr>))"

definition pauseTimer :: "Runtime \<Rightarrow> Runtime" where
  "pauseTimer s =
     (let s1 = (case intervalId s of
                  None \<Rightarrow> s
                | Some h \<Rightarrow> clearInterval (Some h) s)
      in s1\<lparr>isRunning := False, intervalId := None\<rparr>)"

definition resetTimer :: "Runtime \<Rightarrow> Runtime" where
  "resetTimer s =
     (let s1 = pauseTimer s
      in s1\<lparr>remainingTime :=
               (if isWorkSession s1 then workTime s1 else breakTime s1),
             isRunning := False,
             intervalId := None\<rparr>)"

definition skipSession :: "Runtime \<Rightarrow> Runtime" where
  "skipSession s =
     (let s1 = pauseTimer s;
          nextIsWorkSession = \<not> isWorkSession s1;
          nextRemainingTime =
            (if nextIsWorkSession then workTime s1 else breakTime s1)
      in s1\<lparr>isWorkSession := nextIsWorkSession,
             remainingTime := nextRemainingTime,
             isRunning := False,
             intervalId := None\<rparr>)"

subsection \<open>Committing the duration fields\<close>

text \<open>
  \<open>handleSetWorkTime\<close> and \<open>handleSetBreakTime\<close> of the component \<open>Home\<close> (lines
  139-165). The first argument is the draft \<open>inputWorkMinutes\<close> (\<open>inputBreakMinutes\<close>),
  an integer because the field stores \<open>parseInt(e.target.value) || 0\<close>.
\<close>

definition handleSetWorkTime :: "int \<Rightarrow> Runtime \<Rightarrow> Runtime" where
  "handleSetWorkTime inputWorkMinutes s =
     (let newWorkTime = max 1 (min inputWorkMinutes 120) * 60;
          s1 = s\<lparr>workTime := newWorkTime\<rparr>
      in if isWorkSession s \<and> \<not> isRunning s
         then s1\<lparr>remainingTime := newWorkTime\<rparr>
         else s1)"

definition handleSetBreakTime :: "int \<Rightarrow> Runtime \<Rightarrow> Runtime" where
  "handleSetBreakTime inputBreakMinutes s =
     (let newBreakTime = max 1 (min inputBreakMinutes 60) * 60;
          s1 = s\<lparr>breakTime := newBreakTime\<rparr>
      in if \<not> isWorkSession s \<and> \<not> isRunning s
         then s1\<lparr>remainingTime := newBreakTime\<rparr>
         else s1)"

section \<open>Derived notions\<close>

text \<open>The full duration of the session type a state is in.\<close>

definition sessionDuration :: "Runtime \<Rightarrow> int" where
  "sessionDuration s = (if isWorkSession s then workTime s else breakTime s)"

text \<open>The clamp of the specification, written with comparisons.\<close>

definition clampTo :: "int \<Rightarrow> int \<Rightarrow> int \<Rightarrow> int" where
  "clampTo d lo hi = (if d < lo then lo else if hi < d then hi else d)"

text \<open>The bound of the data model: the time left is at most that duration.\<close>

definition sessionBound :: "Runtime \<Rightarrow> bool" where
  "sessionBound s = (remainingTime s \<le> sessionDuration s)"

text \<open>
  The handle discipline: the intervals still scheduled are exactly the stored handle, and
  the timer is running exactly when a handle is stored.
\<close>

definition handleInvariant :: "Runtime \<Rightarrow> bool" where
  "handleInvariant s =
     (activeIntervals s = (case intervalId s of None \<Rightarrow> {} | Some h \<Rightarrow> {h})
      \<and> isRunning s = (intervalId s \<noteq> None))"

text \<open>
  The states the page can be in: the initial one, and what the four buttons, the two
  duration commits and the passing of a second make of a reachable state.
\<close>

inductive reachable :: "Runtime \<Rightarrow> bool" where
  reach_init: "reachable initialState"
| reach_start: "reachable s \<Longrightarrow> reachable (startTimer s)"
| reach_pause: "reachable s \<Longrightarrow> reachable (pauseTimer s)"
| reach_reset: "reachable s \<Longrightarrow> reachable (resetTimer s)"
| reach_skip: "reachable s \<Longrightarrow> reachable (skipSession s)"
| reach_tick: "reachable s \<Longrightarrow> reachable (tick s)"
| reach_work: "reachable s \<Longrightarrow> reachable (handleSetWorkTime d s)"
| reach_break: "reachable s \<Longrightarrow> reachable (handleSetBreakTime d s)"

text \<open>
  \<open>runTicks n s\<close> lets \<open>n\<close> seconds pass from \<open>s\<close>. It returns how many of these ticks
  changed the session type (the session-completion transitions) and the final state.
\<close>

fun runTicks :: "nat \<Rightarrow> Runtime \<Rightarrow> nat \<times> Runtime" where
  "runTicks 0 s = (0, s)"
| "runTicks (Suc n) s =
     (let (c, s') = runTicks n (tick s)
      in ((if isWorkSession (tick s) \<noteq> isWorkSession s then Suc c else c), s'))"

section \<open>The display\<close>

text \<open>
  The page renders \<open>format(new Date(remainingTime * 1000), "mm:ss")\<close> (line 179) with
  \<open>format\<close> of the library date-fns. The library is not part of the repository; its
  documented behaviour for this pattern is modelled: \<open>mm\<close> is the minute of the hour and
  \<open>ss\<close> the second of the minute of the date in local time, each through
  \<open>addLeadingZeros(.., 2)\<close>. The parameter \<open>utcOffset\<close> is the host's local offset from
  UTC in seconds at that date.
\<close>

text \<open>\<open>Number.prototype.toString\<close> on a natural number.\<close>

fun digits :: "nat \<Rightarrow> string" where
  "digits n =
     (if n < 10 then [''0123456789'' ! n]
      else digits (n div 10) @ [''0123456789'' ! (n mod 10)])"

text \<open>
  date-fns \<open>addLeadingZeros(number, targetLength)\<close>: the sign, then the absolute value
  padded with zeros at the start to the target length.
\<close>

definition addLeadingZeros :: "int \<Rightarrow> nat \<Rightarrow> string" where
  "addLeadingZeros number targetLength =
     (let sign = (if number < 0 then ''-'' else []);
          output = digits (nat \<bar>number\<bar>)
      in sign @ replicate (targetLength - length output) CHR ''0'' @ output)"

definition getMinutes :: "int \<Rightarrow> int \<Rightarrow> int" where
  "getMinutes utcOffset ms = ((ms div 1000 + utcOffset) div 60) mod 60"

definition getSeconds :: "int \<Rightarrow> int \<Rightarrow> int" where
  "getSeconds utcOffset ms = (ms div 1000 + utcOffset) mod 60"

definition displayTime :: "int \<Rightarrow> int \<Rightarrow> string" where
  "displayTime utcOffset remaining =
     (let date = remaining * 1000
      in addLeadingZeros (getMinutes utcOffset date) 2 @ '':'' @
         addLeadingZeros (getSeconds utcOffset date) 2)"

text \<open>
  The display as the specification words it: zero-padded \<open>MM:SS\<close> with \<open>MM\<close> the
  seconds divided by 60 and \<open>SS\<close> the remainder.
\<close>

definition displaySpec :: "int \<Rightarrow> string" where
  "displaySpec remainingSeconds =
     addLeadingZeros (remainingSeconds div 60) 2 @ '':'' @
     addLeadingZeros (remainingSeconds mod 60) 2"

section \<open>Helper facts\<close>

lemma tick_decrements:
  "activeIntervals s \<noteq> {} \<Longrightarrow> 0 < remainingTime s \<Longrightarrow>
   tick s = s\<lparr>remainingTime := remainingTime s - 1\<rparr>"
  by (simp add: tick_def tickCallback_def)

lemma runTicks_countdown:
  "activeIntervals s \<noteq> {} \<Longrightarrow> int n \<le> remainingTime s \<Longrightarrow>
   runTicks n s = (0, s\<lparr>remainingTime := remainingTime s - int n\<rparr>)"
proof (induction n arbitrary: s)
  case 0
  then show ?case by simp
next
  case (Suc n)
  from Suc.prems have pos: "0 < remainingTime s" by simp
  have t: "tick s = s\<lparr>remainingTime := remainingTime s - 1\<rparr>"
    using Suc.prems(1) pos by (rule tick_decrements)
  have "runTicks n (tick s) =
      (0, (tick s)\<lparr>remainingTime := remainingTime (tick s) - int n\<rparr>)"
    using Suc.prems by (intro Suc.IH) (simp_all add: t)
  then show ?case by (simp add: t)
qed

text \<open>
  A running countdown of \<open>n\<close> seconds completes at tick \<open>n + 1\<close>: \<open>n\<close> ticks bring the
  time to 0 and the next one runs the completion branch.
\<close>

lemma runTicks_complete:
  "activeIntervals s \<noteq> {} \<Longrightarrow> int n = remainingTime s \<Longrightarrow>
   runTicks (Suc n) s = (1, tickCallback (s\<lparr>remainingTime := 0\<rparr>))"
proof (induction n arbitrary: s)
  case 0
  then have "tick s = tickCallback s" and "s\<lparr>remainingTime := 0\<rparr> = s"
    by (simp_all add: tick_def)
  moreover have "isWorkSession (tickCallback s) \<noteq> isWorkSession s"
    using 0 by (simp add: tickCallback_def clearInterval_def Let_def split: option.split)
  ultimately show ?case by simp
next
  case (Suc n)
  from Suc.prems have pos: "0 < remainingTime s" by simp
  have t: "tick s = s\<lparr>remainingTime := remainingTime s - 1\<rparr>"
    using Suc.prems(1) pos by (rule tick_decrements)
  have "runTicks (Suc n) (tick s) = (1, tickCallback ((tick s)\<lparr>remainingTime := 0\<rparr>))"
    using Suc.prems by (intro Suc.IH) (simp_all add: t)
  then show ?case
    by (subst runTicks.simps(2)) (simp add: t)
qed

lemma startTimer_initialState:
  "startTimer initialState =
     \<lparr>workTime = 3000, breakTime = 600, remainingTime = 3000,
      isRunning = True, isWorkSession = True, intervalId = Some 1,
      activeIntervals = {1}, nextHandle = 2\<rparr>"
  by (simp add: startTimer_def initialState_def setInterval_def)

lemma runTicks_3000:
  "runTicks 3000 (startTimer initialState) =
     (0, \<lparr>workTime = 3000, breakTime = 600, remainingTime = 0,
          isRunning = True, isWorkSession = True, intervalId = Some 1,
          activeIntervals = {1}, nextHandle = 2\<rparr>)"
  by (simp add: startTimer_initialState runTicks_countdown)

lemma sessionBound_initialState: "sessionBound initialState"
  by (simp add: sessionBound_def sessionDuration_def initialState_def)

subsection \<open>The handle discipline is an invariant\<close>

lemma handleInvariant_init: "handleInvariant initialState"
  by (simp add: handleInvariant_def initialState_def)

lemma handleInvariant_start: "handleInvariant s \<Longrightarrow> handleInvariant (startTimer s)"
  by (auto simp add: handleInvariant_def startTimer_def setInterval_def Let_def)

lemma pauseTimer_handles:
  "handleInvariant s \<Longrightarrow>
   activeIntervals (pauseTimer s) = {} \<and> handleInvariant (pauseTimer s)"
  by (auto simp add: handleInvariant_def pauseTimer_def clearInterval_def Let_def
        split: option.splits)

lemma resetTimer_handles:
  "handleInvariant s \<Longrightarrow>
   activeIntervals (resetTimer s) = {} \<and> handleInvariant (resetTimer s)"
  using pauseTimer_handles [of s]
  by (simp add: handleInvariant_def resetTimer_def Let_def)

lemma skipSession_handles:
  "handleInvariant s \<Longrightarrow>
   activeIntervals (skipSession s) = {} \<and> handleInvariant (skipSession s)"
  using pauseTimer_handles [of s]
  by (simp add: handleInvariant_def skipSession_def Let_def)

lemma handleInvariant_tick: "handleInvariant s \<Longrightarrow> handleInvariant (tick s)"
  by (auto simp add: handleInvariant_def tick_def tickCallback_def clearInterval_def
        Let_def split: option.splits)

lemma handleInvariant_work:
  "handleInvariant s \<Longrightarrow> handleInvariant (handleSetWorkTime d s)"
  by (simp add: handleInvariant_def handleSetWorkTime_def Let_def)

lemma handleInvariant_break:
  "handleInvariant s \<Longrightarrow> handleInvariant (handleSetBreakTime d s)"
  by (simp add: handleInvariant_def handleSetBreakTime_def Let_def)

lemma reachable_handleInvariant: "reachable s \<Longrightarrow> handleInvariant s"
proof (induction rule: reachable.induct)
  case reach_init
  show ?case by (rule handleInvariant_init)
next
  case (reach_start s)
  then show ?case by (simp add: handleInvariant_start)
next
  case (reach_pause s)
  then show ?case by (simp add: pauseTimer_handles)
next
  case (reach_reset s)
  then show ?case by (simp add: resetTimer_handles)
next
  case (reach_skip s)
  then show ?case by (simp add: skipSession_handles)
next
  case (reach_tick s)
  then show ?case by (simp add: handleInvariant_tick)
next
  case (reach_work s d)
  then show ?case by (simp add: handleInvariant_work)
next
  case (reach_break s d)
  then show ?case by (simp add: handleInvariant_break)
qed

subsection \<open>The session bound under each operation\<close>

lemma sessionBound_tick: "sessionBound s \<Longrightarrow> sessionBound (tick s)"
  by (auto simp add: sessionBound_def sessionDuration_def tick_def tickCallback_def
        clearInterval_def Let_def split: option.split)

lemma sessionBound_start: "sessionBound s \<Longrightarrow> sessionBound (startTimer s)"
  by (auto simp add: sessionBound_def sessionDuration_def startTimer_def setInterval_def
        Let_def)

lemma sessionBound_pause: "sessionBound s \<Longrightarrow> sessionBound (pauseTimer s)"
  by (auto simp add: sessionBound_def sessionDuration_def pauseTimer_def clearInterval_def
        Let_def split: option.split)

lemma sessionBound_reset: "sessionBound (resetTimer s)"
  by (simp add: sessionBound_def sessionDuration_def resetTimer_def pauseTimer_def
        clearInterval_def Let_def split: option.split)

lemma sessionBound_skip: "sessionBound (skipSession s)"
  by (simp add: sessionBound_def sessionDuration_def skipSession_def pauseTimer_def
        clearInterval_def Let_def split: option.split)

lemma sessionBound_work:
  "sessionBound s \<Longrightarrow>
   sessionBound (handleSetWorkTime d s) =
     (\<not> (isRunning s \<and> isWorkSession s) \<or> remainingTime s \<le> max 1 (min d 120) * 60)"
  by (auto simp add: sessionBound_def sessionDuration_def handleSetWorkTime_def Let_def)

lemma sessionBound_break:
  "sessionBound s \<Longrightarrow>
   sessionBound (handleSetBreakTime d s) =
     (\<not> (isRunning s \<and> \<not> isWorkSession s) \<or> remainingTime s \<le> max 1 (min d 60) * 60)"
  by (auto simp add: sessionBound_def sessionDuration_def handleSetBreakTime_def Let_def)

subsection \<open>The display repeats every hour\<close>

lemma getMinutes_hour: "getMinutes off ((r + 3600) * 1000) = getMinutes off (r * 1000)"
proof -
  have "(r + 3600 + off) div 60 = (r + off) div 60 + 60"
    by simp
  then show ?thesis
    by (simp add: getMinutes_def)
qed

lemma getSeconds_hour: "getSeconds off ((r + 3600) * 1000) = getSeconds off (r * 1000)"
proof -
  have e: "(r + 3600) * 1000 div 1000 = r + 3600" "r * 1000 div 1000 = r"
    by simp_all
  have "r + 3600 + off = (r + off) + 60 * 60"
    by simp
  then have "(r + 3600 + off) mod 60 = (r + off) mod 60"
    by (simp only: mod_mult_self2)
  then show ?thesis
    unfolding getSeconds_def e .
qed

lemma displayTime_hour: "displayTime off (r + 3600) = displayTime off r"
  unfolding displayTime_def Let_def getMinutes_hour getSeconds_hour by (rule refl)

text \<open>
  Below one hour, on a host whose local offset is a whole number of hours, the display is
  the \<open>MM:SS\<close> of the specification.
\<close>

lemma displayTime_below_hour:
  assumes "0 \<le> r" and "r < 3600" and "off mod 3600 = 0"
  shows "displayTime off r = displaySpec r"
proof -
  from assms(3) have "3600 dvd off"
    by (simp only: dvd_eq_mod_eq_0)
  then obtain k where k: "off = 3600 * k" ..
  have sum: "r + off = r + 60 * (60 * k)"
    using k by simp
  have e: "r * 1000 div 1000 = r"
    by simp
  have "(r + off) div 60 = 60 * k + r div 60"
    unfolding sum by (rule div_mult_self2) simp
  moreover have "r div 60 < 60" and "0 \<le> r div 60"
    using assms(1,2) by simp_all
  ultimately have m: "((r + off) div 60) mod 60 = r div 60"
    by simp
  have s: "(r + off) mod 60 = r mod 60"
    unfolding sum by (rule mod_mult_self2)
  show ?thesis
    unfolding displayTime_def displaySpec_def getMinutes_def getSeconds_def Let_def e m s
    by (rule refl)
qed

lemma displayTime_examples:
  "displayTime 0 65 = ''01:05'' \<and> displayTime 0 0 = ''00:00''"
  by code_simp

section \<open>The session bound\<close>

text \<open>
  Claim C1, as the code has it. The bound \<open>remainingTime \<le>\<close> duration of the current
  session type holds initially. \<open>startTimer\<close>, \<open>pauseTimer\<close> and the tick preserve it,
  \<open>resetTimer\<close> and \<open>skipSession\<close> establish it. A commit of the work duration
  preserves it exactly when the timer is not running in a work session or the time left
  is at most the new duration; the same for the break duration and a break session.
\<close>

theorem sessionBound_preserved:
  assumes "sessionBound s"
  shows "sessionBound initialState
    \<and> sessionBound (startTimer s) \<and> sessionBound (pauseTimer s)
    \<and> sessionBound (resetTimer s) \<and> sessionBound (skipSession s)
    \<and> sessionBound (tick s)
    \<and> sessionBound (handleSetWorkTime d s) =
        (\<not> (isRunning s \<and> isWorkSession s)
         \<or> remainingTime s \<le> max 1 (min d 120) * 60)
    \<and> sessionBound (handleSetBreakTime d s) =
        (\<not> (isRunning s \<and> \<not> isWorkSession s)
         \<or> remainingTime s \<le> max 1 (min d 60) * 60)"
  using assms sessionBound_work [OF assms, of d] sessionBound_break [OF assms, of d]
  by (simp add: sessionBound_initialState sessionBound_start sessionBound_pause
        sessionBound_reset sessionBound_skip sessionBound_tick)

text \<open>The theorem at the initial state and at the running state after \<open>startTimer\<close>.\<close>

theorem sessionBound_preserved_witness:
  "sessionBound initialState
   \<and> sessionBound (startTimer initialState)
   \<and> sessionBound (tick (startTimer initialState))
   \<and> sessionBound (handleSetWorkTime 120 (startTimer initialState))
   \<and> sessionBound (handleSetWorkTime 1 initialState)"
proof -
  have i: "sessionBound initialState"
    by (rule sessionBound_initialState)
  have s: "sessionBound (startTimer initialState)"
    using sessionBound_preserved [OF i] by simp
  have w1: "sessionBound (handleSetWorkTime 1 initialState)"
    using sessionBound_preserved [OF i, of 1] by (simp add: initialState_def)
  have w2: "sessionBound (handleSetWorkTime 120 (startTimer initialState))"
    using sessionBound_preserved [OF s, of 120] by (simp add: startTimer_initialState)
  show ?thesis
    using i s w1 w2 sessionBound_preserved [OF s] by simp
qed

text \<open>
  Claim C1 as stated fails: start the timer and commit a work duration of 1 minute. The
  state is reachable, the work duration is 60 seconds and 3000 seconds are left.
\<close>

theorem sessionBound_counterexample:
  "reachable (handleSetWorkTime 1 (startTimer initialState))
   \<and> remainingTime (handleSetWorkTime 1 (startTimer initialState)) = 3000
   \<and> isWorkSession (handleSetWorkTime 1 (startTimer initialState))
   \<and> workTime (handleSetWorkTime 1 (startTimer initialState)) = 60
   \<and> \<not> sessionBound (handleSetWorkTime 1 (startTimer initialState))"
proof -
  have "reachable (handleSetWorkTime 1 (startTimer initialState))"
    by (intro reach_work reach_start reach_init)
  then show ?thesis
    by (simp add: startTimer_initialState handleSetWorkTime_def sessionBound_def
          sessionDuration_def)
qed

section \<open>Running a whole session\<close>

text \<open>
  Claim C2, as the code has it. From the initial state, \<open>startTimer\<close> and 3001 ticks
  perform exactly one session-completion transition and end stopped in a break session
  with 600 seconds, no interval scheduled. After 3000 ticks no transition has happened:
  the timer is still running the work session, with 0 seconds left.
\<close>

theorem runTicks_3001:
  "runTicks 3001 (startTimer initialState) =
     (1, \<lparr>workTime = 3000, breakTime = 600, remainingTime = 600,
          isRunning = False, isWorkSession = False, intervalId = None,
          activeIntervals = {}, nextHandle = 2\<rparr>)
   \<and> runTicks 3000 (startTimer initialState) =
     (0, \<lparr>workTime = 3000, breakTime = 600, remainingTime = 0,
          isRunning = True, isWorkSession = True, intervalId = Some 1,
          activeIntervals = {1}, nextHandle = 2\<rparr>)"
proof -
  have "runTicks 3001 (startTimer initialState) =
      runTicks (Suc 3000) (startTimer initialState)"
    by simp
  also have "\<dots> =
     (1, \<lparr>workTime = 3000, breakTime = 600, remainingTime = 600,
          isRunning = False, isWorkSession = False, intervalId = None,
          activeIntervals = {}, nextHandle = 2\<rparr>)"
    by (subst runTicks_complete)
      (simp_all add: startTimer_initialState tickCallback_def clearInterval_def)
  finally show ?thesis
    by (simp add: runTicks_3000)
qed

text \<open>
  Claim C2 as stated fails: after \<open>startTimer\<close> and 3000 ticks no transition has been
  performed, the timer is running, the session is the work session and 0 seconds are
  left.
\<close>

theorem runTicks_3000_counterexample:
  "fst (runTicks 3000 (startTimer initialState)) = 0
   \<and> isRunning (snd (runTicks 3000 (startTimer initialState)))
   \<and> isWorkSession (snd (runTicks 3000 (startTimer initialState)))
   \<and> remainingTime (snd (runTicks 3000 (startTimer initialState))) = 0"
  by (simp add: runTicks_3000)

section \<open>The display\<close>

text \<open>
  Claim C3 at the input where the code leaves it: 3600 seconds are displayed as 0 seconds
  are, whatever the host's offset, because the minute field is the minute of the hour.
  On a host at UTC the page shows 00:00 where the claim says 60:00.
\<close>

theorem displayTime_wraps_at_hour:
  "displayTime off 3600 = displayTime off 0
   \<and> displayTime 0 3600 = ''00:00''
   \<and> displaySpec 3600 = ''60:00''"
proof -
  have "displayTime off 3600 = displayTime off 0"
    using displayTime_hour [of off 0] by simp
  moreover have "displayTime 0 3600 = ''00:00''"
    by code_simp
  moreover have "displaySpec 3600 = ''60:00''"
    by code_simp
  ultimately show ?thesis by simp
qed

section \<open>Start and pause\<close>

text \<open>
  Claim C4, as the code has it. If the timer is running or \<open>remainingTime\<close> is not 0,
  \<open>startTimer\<close> followed by \<open>pauseTimer\<close> leaves \<open>remainingTime\<close> as it was. From a
  stopped state with \<open>remainingTime = 0\<close> the two calls leave the full duration of the
  current session type.
\<close>

theorem start_pause_remaining:
  "(isRunning s \<or> remainingTime s \<noteq> 0 \<longrightarrow>
      remainingTime (pauseTimer (startTimer s)) = remainingTime s)
   \<and> (\<not> isRunning s \<and> remainingTime s = 0 \<longrightarrow>
      remainingTime (pauseTimer (startTimer s)) = sessionDuration s)"
  by (simp add: startTimer_def pauseTimer_def setInterval_def clearInterval_def Let_def
        sessionDuration_def split: option.split)

text \<open>
  The theorem at the initial state (3000 seconds left) and at the state paused at 0 after
  3000 ticks.
\<close>

theorem start_pause_remaining_witness:
  "remainingTime initialState \<noteq> 0
   \<and> remainingTime (pauseTimer (startTimer initialState)) = remainingTime initialState
   \<and> \<not> isRunning (pauseTimer (snd (runTicks 3000 (startTimer initialState))))
   \<and> remainingTime (pauseTimer (snd (runTicks 3000 (startTimer initialState)))) = 0
   \<and> remainingTime
       (pauseTimer (startTimer
          (pauseTimer (snd (runTicks 3000 (startTimer initialState)))))) =
      sessionDuration (pauseTimer (snd (runTicks 3000 (startTimer initialState))))"
proof -
  have a: "remainingTime initialState \<noteq> 0"
    by (simp add: initialState_def)
  have b: "\<not> isRunning (pauseTimer (snd (runTicks 3000 (startTimer initialState))))
      \<and> remainingTime (pauseTimer (snd (runTicks 3000 (startTimer initialState)))) = 0"
    unfolding runTicks_3000 by (simp add: pauseTimer_def clearInterval_def)
  show ?thesis
    using a b start_pause_remaining [of initialState]
      start_pause_remaining
        [of "pauseTimer (snd (runTicks 3000 (startTimer initialState)))"]
    by simp
qed

text \<open>
  Claim C4 as stated fails. Start the timer, let 3000 ticks pass and pause: the timer is
  stopped with 0 seconds left. \<open>startTimer\<close> then \<open>pauseTimer\<close> leave 3000 seconds.
\<close>

theorem start_pause_counterexample:
  "remainingTime (pauseTimer (snd (runTicks 3000 (startTimer initialState)))) = 0
   \<and> remainingTime
       (pauseTimer (startTimer
          (pauseTimer (snd (runTicks 3000 (startTimer initialState)))))) = 3000"
  unfolding runTicks_3000
  by (simp add: pauseTimer_def clearInterval_def startTimer_def setInterval_def)

section \<open>Committing a duration\<close>

text \<open>
  Claim C5. For every integer \<open>d\<close>, the work commit stores \<open>clamp(d, 1, 120) * 60\<close> in
  \<open>workTime\<close> and the break commit stores \<open>clamp(d, 1, 60) * 60\<close> in \<open>breakTime\<close>. The
  work commit sets \<open>remainingTime\<close> to the new value if the session is a work session and
  the timer is not running, and leaves it otherwise; the same for the break commit and a
  break session.
\<close>

theorem commit_clamps:
  "workTime (handleSetWorkTime d s) = clampTo d 1 120 * 60
   \<and> breakTime (handleSetBreakTime d s) = clampTo d 1 60 * 60
   \<and> remainingTime (handleSetWorkTime d s) =
       (if isWorkSession s \<and> \<not> isRunning s then clampTo d 1 120 * 60
        else remainingTime s)
   \<and> remainingTime (handleSetBreakTime d s) =
       (if \<not> isWorkSession s \<and> \<not> isRunning s then clampTo d 1 60 * 60
        else remainingTime s)"
  by (simp add: handleSetWorkTime_def handleSetBreakTime_def clampTo_def Let_def)

text \<open>
  Claim C10. A work commit while the timer is running or the session is a break session
  changes \<open>workTime\<close> and nothing else; a break commit while the timer is running or the
  session is a work session changes \<open>breakTime\<close> and nothing else.
\<close>

theorem commit_frame:
  "(isRunning s \<or> \<not> isWorkSession s \<longrightarrow>
      handleSetWorkTime d s = s\<lparr>workTime := max 1 (min d 120) * 60\<rparr>)
   \<and> (isRunning s \<or> isWorkSession s \<longrightarrow>
      handleSetBreakTime d s = s\<lparr>breakTime := max 1 (min d 60) * 60\<rparr>)"
  by (auto simp add: handleSetWorkTime_def handleSetBreakTime_def Let_def)

text \<open>The theorem at the running state after \<open>startTimer\<close>, with a draft of 5 minutes.\<close>

theorem commit_frame_witness:
  "isRunning (startTimer initialState)
   \<and> handleSetWorkTime 5 (startTimer initialState) =
       (startTimer initialState)\<lparr>workTime := 300\<rparr>
   \<and> handleSetBreakTime 5 (startTimer initialState) =
       (startTimer initialState)\<lparr>breakTime := 300\<rparr>"
proof -
  have r: "isRunning (startTimer initialState)"
    by (simp add: startTimer_initialState)
  show ?thesis
    using r commit_frame [of "startTimer initialState" 5] by simp
qed

section \<open>Reset and skip\<close>

text \<open>
  Claim C6. In every state, \<open>resetTimer\<close> sets \<open>remainingTime\<close> to the full duration of
  the current session type and \<open>isRunning\<close> to false, and leaves \<open>isWorkSession\<close>,
  \<open>workTime\<close> and \<open>breakTime\<close> as they were, whatever \<open>remainingTime\<close> was before.
\<close>

theorem resetTimer_full_duration:
  "remainingTime (resetTimer s) = (if isWorkSession s then workTime s else breakTime s)
   \<and> isRunning (resetTimer s) = False
   \<and> isWorkSession (resetTimer s) = isWorkSession s
   \<and> workTime (resetTimer s) = workTime s
   \<and> breakTime (resetTimer s) = breakTime s"
  by (simp add: resetTimer_def pauseTimer_def clearInterval_def Let_def
        split: option.split)

text \<open>
  Claim C7. In every state, \<open>skipSession\<close> negates \<open>isWorkSession\<close>, sets
  \<open>remainingTime\<close> to the full duration of the new session type and \<open>isRunning\<close> to
  false. From the initial state (stopped, work session, 3000 seconds) it gives the
  stopped break session with 600 seconds.
\<close>

theorem skipSession_flips:
  "isWorkSession (skipSession s) = (\<not> isWorkSession s)
   \<and> remainingTime (skipSession s) = (if isWorkSession s then breakTime s else workTime s)
   \<and> remainingTime (skipSession s) = sessionDuration (skipSession s)
   \<and> isRunning (skipSession s) = False
   \<and> workTime (skipSession s) = workTime s
   \<and> breakTime (skipSession s) = breakTime s
   \<and> skipSession initialState =
       \<lparr>workTime = 3000, breakTime = 600, remainingTime = 600,
        isRunning = False, isWorkSession = False, intervalId = None,
        activeIntervals = {}, nextHandle = 1\<rparr>"
  by (simp add: skipSession_def pauseTimer_def clearInterval_def Let_def
        sessionDuration_def initialState_def split: option.split)

section \<open>Starting twice\<close>

text \<open>
  Claim C8. \<open>startTimer\<close> changes nothing when the timer is running. When it is not and
  \<open>remainingTime\<close> is 0, the timer runs afterwards with the full duration of the current
  session type; when \<open>remainingTime\<close> is not 0 it runs with the time it had. Calling
  \<open>startTimer\<close> twice gives the state that calling it once gives.
\<close>

theorem startTimer_idempotent:
  "(isRunning s \<longrightarrow> startTimer s = s)
   \<and> (\<not> isRunning s \<and> remainingTime s = 0 \<longrightarrow>
        remainingTime (startTimer s) = sessionDuration s \<and> isRunning (startTimer s))
   \<and> (\<not> isRunning s \<and> remainingTime s \<noteq> 0 \<longrightarrow>
        remainingTime (startTimer s) = remainingTime s \<and> isRunning (startTimer s))
   \<and> startTimer (startTimer s) = startTimer s"
proof -
  have run: "isRunning (startTimer s)"
    by (simp add: startTimer_def setInterval_def Let_def)
  have "startTimer (startTimer s) = startTimer s"
    using run by (subst startTimer_def) simp
  then show ?thesis
    by (simp add: startTimer_def setInterval_def Let_def sessionDuration_def)
qed

text \<open>
  The theorem at three states: running after \<open>startTimer\<close>; stopped with 0 seconds left
  (paused after 3000 ticks); and the initial state.
\<close>

theorem startTimer_idempotent_witness:
  "isRunning (startTimer initialState)
   \<and> startTimer (startTimer initialState) = startTimer initialState
   \<and> remainingTime (pauseTimer (snd (runTicks 3000 (startTimer initialState)))) = 0
   \<and> remainingTime
       (startTimer (pauseTimer (snd (runTicks 3000 (startTimer initialState))))) = 3000
   \<and> isRunning (startTimer (pauseTimer (snd (runTicks 3000 (startTimer initialState)))))
   \<and> remainingTime (startTimer initialState) = remainingTime initialState"
proof -
  let ?z = "pauseTimer (snd (runTicks 3000 (startTimer initialState)))"
  have z: "\<not> isRunning ?z \<and> remainingTime ?z = 0 \<and> sessionDuration ?z = 3000"
    unfolding runTicks_3000
    by (simp add: pauseTimer_def clearInterval_def sessionDuration_def)
  have i: "\<not> isRunning initialState \<and> remainingTime initialState \<noteq> 0"
    by (simp add: initialState_def)
  have r: "isRunning (startTimer initialState)"
    by (simp add: startTimer_initialState)
  show ?thesis
    using z i r startTimer_idempotent [of "startTimer initialState"]
      startTimer_idempotent [of ?z] startTimer_idempotent [of initialState]
    by simp
qed

section \<open>One live tick handle\<close>

text \<open>
  Claim C9. In every reachable state (so after every operation and every tick) at most one
  interval is scheduled, and it is the stored one; \<open>isRunning\<close> is false exactly when the
  stored handle is null, and then no interval is scheduled. After \<open>pauseTimer\<close>,
  \<open>resetTimer\<close> and \<open>skipSession\<close> no interval is scheduled.
\<close>

theorem one_live_handle:
  assumes "reachable s"
  shows "finite (activeIntervals s) \<and> card (activeIntervals s) \<le> 1
    \<and> activeIntervals s = (case intervalId s of None \<Rightarrow> {} | Some h \<Rightarrow> {h})
    \<and> (\<not> isRunning s) = (intervalId s = None)
    \<and> (\<not> isRunning s \<longrightarrow> activeIntervals s = {})
    \<and> activeIntervals (pauseTimer s) = {}
    \<and> activeIntervals (resetTimer s) = {}
    \<and> activeIntervals (skipSession s) = {}"
proof -
  have inv: "handleInvariant s"
    using assms by (rule reachable_handleInvariant)
  then have "activeIntervals s = (case intervalId s of None \<Rightarrow> {} | Some h \<Rightarrow> {h})"
    and "isRunning s = (intervalId s \<noteq> None)"
    by (simp_all add: handleInvariant_def)
  moreover from this have "finite (activeIntervals s)" "card (activeIntervals s) \<le> 1"
    by (simp_all split: option.split)
  ultimately show ?thesis
    using pauseTimer_handles [OF inv] resetTimer_handles [OF inv]
      skipSession_handles [OF inv]
    by auto
qed

text \<open>The theorem at the running state after \<open>startTimer\<close>.\<close>

theorem one_live_handle_witness:
  "reachable (startTimer initialState)
   \<and> card (activeIntervals (startTimer initialState)) \<le> 1
   \<and> activeIntervals (startTimer initialState) = {1}
   \<and> intervalId (startTimer initialState) = Some 1
   \<and> isRunning (startTimer initialState)
   \<and> activeIntervals (pauseTimer (startTimer initialState)) = {}"
proof -
  have r: "reachable (startTimer initialState)"
    by (intro reach_start reach_init)
  show ?thesis
    using r one_live_handle [OF r] by (simp add: startTimer_initialState)
qed

end
